theory Spec2Isabelle
  imports Complex_Main
begin

section \<open>Python values and errors\<close>

text \<open>
  The exceptions of the Python source that the modelled functions can raise.  A function
  that can raise returns \<open>py_error + 'a\<close>, with \<open>Inl\<close> for the exception.
\<close>

datatype py_error = IndexError | TypeError | ValueError

section \<open>Reference densification: \<open>generate_reference_display\<close>\<close>

text \<open>
  A reference curve is a one-dimensional array of numbers; the three display arrays
  (\<open>display_x\<close>, \<open>display_z\<close>, \<open>is_midpoint\<close>) are built by appending.
  The numbers are modelled as reals, so \<open>(a + b) / 2\<close> is the exact mean.
\<close>

type_synonym display = "real list \<times> real list \<times> bool list"

text \<open>
  The body of \<open>for i in range(len(ref_x) - 1)\<close>, run over the list of indices.
  The reads \<open>ref_x[i]\<close>, \<open>ref_x[i+1]\<close>, \<open>ref_z[i]\<close>, \<open>ref_z[i+1]\<close> raise
  IndexError out of range.
\<close>

fun display_loop :: "real list \<Rightarrow> real list \<Rightarrow> nat list \<Rightarrow> display \<Rightarrow> py_error + display" where
  "display_loop ref_x ref_z [] acc = Inr acc"
| "display_loop ref_x ref_z (i # is) (display_x, display_z, is_midpoint) =
     (if i + 1 < length ref_x \<and> i + 1 < length ref_z then
        display_loop ref_x ref_z is
          (display_x @ [ref_x ! i, (ref_x ! i + ref_x ! (i + 1)) / 2],
           display_z @ [ref_z ! i, (ref_z ! i + ref_z ! (i + 1)) / 2],
           is_midpoint @ [False, True])
      else Inl IndexError)"

text \<open>
  \<open>None\<close> for either argument returns three empty arrays.  After the loop the last
  points \<open>ref_x[-1]\<close>, \<open>ref_z[-1]\<close> are appended; on an empty array that read raises.
\<close>

definition generate_reference_display ::
  "real list option \<Rightarrow> real list option \<Rightarrow> py_error + display" where
  "generate_reference_display ref_x ref_z =
     (case (ref_x, ref_z) of
        (Some rx, Some rz) \<Rightarrow>
          (case display_loop rx rz [0..<length rx - 1] ([], [], []) of
             Inl e \<Rightarrow> Inl e
           | Inr (display_x, display_z, is_midpoint) \<Rightarrow>
               if rx = [] \<or> rz = [] then Inl IndexError
               else Inr (display_x @ [last rx], display_z @ [last rz], is_midpoint @ [False]))
      | _ \<Rightarrow> Inr ([], [], []))"

section \<open>Loading one data type: the loop body of \<open>load_data_from_h5_dynamic\<close>\<close>

text \<open>
  The three data types are the keys \<open>'screwdown'\<close>, \<open>'bending'\<close>, \<open>'profile'\<close>;
  \<open>capitalize\<close> is Python's \<open>data_type.capitalize()\<close> on these keys.
\<close>

datatype data_type = Screwdown | Bending | Profile

fun type_name :: "data_type \<Rightarrow> string" where
  "type_name Screwdown = ''screwdown''"
| "type_name Bending = ''bending''"
| "type_name Profile = ''profile''"

fun capitalize :: "data_type \<Rightarrow> string" where
  "capitalize Screwdown = ''Screwdown''"
| "capitalize Bending = ''Bending''"
| "capitalize Profile = ''Profile''"

text \<open>
  What the external file reader returns for one data group: the datasets \<open>x\<close> and
  \<open>z\<close> (read as a one- or two-dimensional array), the attributes, and the sibling
  datasets \<open>ref_x\<close>, \<open>ref_z\<close> when the group has them.  A two-dimensional array is
  the list of its rows.
\<close>

datatype h5_array = Array1 "real list" | Array2 "real list list"

record data_group =
  x_data :: h5_array
  z_data :: h5_array
  attrs :: "string \<rightharpoonup> real list"
  ref_x_data :: "real list option"
  ref_z_data :: "real list option"

text \<open>\<open>if len(a.shape) == 1: a = a.reshape(1, -1)\<close>\<close>

definition reshape_rows :: "h5_array \<Rightarrow> real list list" where
  "reshape_rows a = (case a of Array1 xs \<Rightarrow> [xs] | Array2 rows \<Rightarrow> rows)"

text \<open>\<open>a.size\<close>, the number of elements.\<close>

definition array_size :: "real list list \<Rightarrow> nat" where
  "array_size rows = sum_list (map length rows)"

text \<open>\<open>np.mean(a, axis=0)\<close>: the mean of every column over the rows.\<close>

definition col_mean :: "real list list \<Rightarrow> real list" where
  "col_mean rows =
     (case rows of
        [] \<Rightarrow> []
      | r # _ \<Rightarrow> map (\<lambda>j. sum_list (map (\<lambda>row. row ! j) rows) / real (length rows)) [0..<length r])"

definition ref_attr_names :: "data_type \<Rightarrow> string list" where
  "ref_attr_names dt =
     [capitalize dt @ '' ref x'', type_name dt @ '' ref x'', ''ref_x'', ''reference_x'']"

definition ref_attr_names_z :: "data_type \<Rightarrow> string list" where
  "ref_attr_names_z dt =
     [capitalize dt @ '' ref z'', type_name dt @ '' ref z'', ''ref_z'', ''reference_z'']"

text \<open>
  \<open>for attr_name in names: if attr_name in data_group.attrs: ref = ...; break\<close>
\<close>

fun first_attr :: "(string \<rightharpoonup> real list) \<Rightarrow> string list \<Rightarrow> real list option" where
  "first_attr a [] = None"
| "first_attr a (attr_name # names) =
     (case a attr_name of Some v \<Rightarrow> Some v | None \<Rightarrow> first_attr a names)"

text \<open>
  The three steps that set \<open>ref_x\<close> and \<open>ref_z\<close>: the attributes; the sibling datasets,
  read when either reference is still \<open>None\<close>; the column mean of the actual array,
  for a reference that is still \<open>None\<close> when the actual array is not empty.  (The actual
  arrays are two-dimensional here, so the branch \<open>ndim > 1\<close> is the one taken.)
\<close>

definition resolve_reference ::
  "data_type \<Rightarrow> data_group \<Rightarrow> real list list \<Rightarrow> real list list
     \<Rightarrow> real list option \<times> real list option" where
  "resolve_reference dt g ax az =
     (let ref_x0 = first_attr (attrs g) (ref_attr_names dt);
          ref_z0 = first_attr (attrs g) (ref_attr_names_z dt);
          ref_x1 = (if ref_x0 = None \<or> ref_z0 = None
                    then (case ref_x_data g of Some d \<Rightarrow> Some d | None \<Rightarrow> ref_x0) else ref_x0);
          ref_z1 = (if ref_x0 = None \<or> ref_z0 = None
                    then (case ref_z_data g of Some d \<Rightarrow> Some d | None \<Rightarrow> ref_z0) else ref_z0);
          ref_x2 = (if ref_x1 = None \<and> 0 < array_size ax then Some (col_mean ax) else ref_x1);
          ref_z2 = (if ref_z1 = None \<and> 0 < array_size az then Some (col_mean az) else ref_z1)
      in (ref_x2, ref_z2))"

record data_series =
  actual_x :: "real list list"
  actual_z :: "real list list"
  ref_x :: "real list"
  ref_z :: "real list"
  is_midpoint :: "bool list"

text \<open>
  One pass of \<open>for data_type, data_path in coil_data_paths.items()\<close>.  \<open>None\<close> is the
  data type left out of the result: the \<open>continue\<close> on a missing or unequal reference,
  and the \<open>except\<close> that catches what \<open>generate_reference_display\<close> raises.
\<close>

definition load_data_type :: "data_type \<Rightarrow> data_group \<Rightarrow> data_series option" where
  "load_data_type dt g =
     (let ax = reshape_rows (x_data g);
          az = reshape_rows (z_data g)
      in case resolve_reference dt g ax az of
           (Some rx, Some rz) \<Rightarrow>
             if length rx \<noteq> length rz then None
             else (case generate_reference_display (Some rx) (Some rz) of
                     Inl e \<Rightarrow> None
                   | Inr (disp_x, disp_z, is_mid) \<Rightarrow>
                       Some \<lparr>actual_x = ax, actual_z = az, ref_x = disp_x, ref_z = disp_z,
                             is_midpoint = is_mid\<rparr>)
         | _ \<Rightarrow> None)"

section \<open>The blank-info ranges: \<open>COIL_BLANK_INFO_RANGES\<close>\<close>

record coil_range =
  start :: int
  end_num :: int
  count :: nat

text \<open>
  The global dictionary keeps its keys in insertion order: an assignment to a key it has
  replaces the value in place, an assignment to a new key appends.
\<close>

type_synonym ranges = "(string \<times> coil_range) list"

fun dict_set :: "('k \<times> 'v) list \<Rightarrow> 'k \<Rightarrow> 'v \<Rightarrow> ('k \<times> 'v) list" where
  "dict_set [] k v = [(k, v)]"
| "dict_set ((k', v') # kvs) k v =
     (if k' = k then (k, v) # kvs else (k', v') # dict_set kvs k v)"

text \<open>\<open>np.arange(a, b)\<close> on integers.\<close>

definition arange :: "int \<Rightarrow> int \<Rightarrow> int list" where
  "arange a b = [a..b - 1]"

text \<open>
  \<open>generate_coil_blank_info(coil_name, num_rows)\<close>: returns the blank-info array and
  the dictionary after the call.
\<close>

definition generate_coil_blank_info :: "string \<Rightarrow> nat \<Rightarrow> ranges \<Rightarrow> int list \<times> ranges" where
  "generate_coil_blank_info coil_name num_rows R =
     (case map_of R coil_name of
        Some r \<Rightarrow> (arange (start r) (start r + int num_rows), R)
      | None \<Rightarrow>
          (let start_num = (if R \<noteq> [] then Max (set (map (\<lambda>kv. end_num (snd kv)) R)) + 1 else 1);
               end_n = start_num + int num_rows - 1
           in (arange start_num (start_num + int num_rows),
               dict_set R coil_name \<lparr>start = start_num, end_num = end_n, count = num_rows\<rparr>)))"

section \<open>Loading a coil: \<open>load_data_from_h5_dynamic\<close>\<close>

text \<open>
  A file, as the functions here see it through the reader: \<open>coil_names\<close> is what
  \<open>get_available_coils_dynamic\<close> returns for it, and \<open>coil_groups f coil\<close> maps every
  data type to the group \<open>get_coil_data_paths\<close> finds for the coil (for the empty coil
  name, the group \<open>find_any_data\<close> finds).  A file that cannot be opened is a file with
  no coils and no groups.
\<close>

record h5_file =
  coil_names :: "string list"
  coil_groups :: "string \<Rightarrow> data_type \<Rightarrow> data_group option"

record loaded =
  series :: "data_type \<Rightarrow> data_series option"
  blank_info :: "int list option"

text \<open>
  \<open>num_rows = 0; for key in ["screwdown", "bending", "profile"]:
  num_rows = max(num_rows, result[key]["actual_x"].shape[0])\<close>
\<close>

definition num_rows_of :: "(data_type \<Rightarrow> data_series option) \<Rightarrow> nat" where
  "num_rows_of ser =
     fold (\<lambda>key num_rows. case ser key of Some s \<Rightarrow> max num_rows (length (actual_x s))
                                         | None \<Rightarrow> num_rows)
       [Screwdown, Bending, Profile] 0"

definition load_data_from_h5_dynamic :: "h5_file \<Rightarrow> string \<Rightarrow> ranges \<Rightarrow> loaded \<times> ranges" where
  "load_data_from_h5_dynamic f coil R =
     (let coil_data_paths = coil_groups f coil in
      if coil_data_paths Screwdown = None \<and> coil_data_paths Bending = None
         \<and> coil_data_paths Profile = None
      then (\<lparr>series = (\<lambda>dt. None), blank_info = None\<rparr>, R)
      else
        (let result = (\<lambda>dt. case coil_data_paths dt of None \<Rightarrow> None
                                                      | Some g \<Rightarrow> load_data_type dt g);
             num_rows = num_rows_of result
         in if 0 < num_rows
            then (let (bi, R') = generate_coil_blank_info coil num_rows R
                  in (\<lparr>series = result, blank_info = Some bi\<rparr>, R'))
            else (\<lparr>series = result, blank_info = Some []\<rparr>, R)))"

text \<open>
  \<open>data and any(data.values())\<close> on the result dictionary.  A loaded series is a
  non-empty dictionary, so it is truthy.  The blank-info array is truthy when it has
  one non-zero element; the truth value of an empty or longer array is false or raises,
  and both callers treat the exception as they treat false.
\<close>

definition any_values :: "loaded \<Rightarrow> bool" where
  "any_values d =
     (series d Screwdown \<noteq> None \<or> series d Bending \<noteq> None \<or> series d Profile \<noteq> None
      \<or> (case blank_info d of Some [b] \<Rightarrow> b \<noteq> 0 | _ \<Rightarrow> False))"

section \<open>Batch range computation: \<open>calculate_coil_ranges\<close>\<close>

definition digit_value :: "char \<Rightarrow> nat option" where
  "digit_value c =
     map_of [(CHR ''0'', 0), (CHR ''1'', 1), (CHR ''2'', 2), (CHR ''3'', 3), (CHR ''4'', 4),
             (CHR ''5'', 5), (CHR ''6'', 6), (CHR ''7'', 7), (CHR ''8'', 8), (CHR ''9'', 9)] c"

text \<open>
  \<open>numbers = ''.join(filter(str.isdigit, coil_name)); int(numbers) if numbers else 0\<close>
  on ASCII names.
\<close>

definition extract_coil_number :: "string \<Rightarrow> nat" where
  "extract_coil_number coil_name =
     fold (\<lambda>c n. case digit_value c of Some d \<Rightarrow> 10 * n + d | None \<Rightarrow> n) coil_name 0"

text \<open>
  The loop over the sorted coils; \<open>current_start\<close> is its local variable.  Loading the
  coil runs first and may itself allocate; then the entry of the coil is assigned.
\<close>

fun calc_loop :: "h5_file \<Rightarrow> string list \<Rightarrow> int \<Rightarrow> ranges \<Rightarrow> ranges" where
  "calc_loop f [] current_start R = R"
| "calc_loop f (coil_name # rest) current_start R =
     (let (coil_data, R1) = load_data_from_h5_dynamic f coil_name R in
      if any_values coil_data then
        (let num_rows = num_rows_of (series coil_data) in
         if 0 < num_rows then
           (let end_n = current_start + int num_rows - 1
            in calc_loop f rest (end_n + 1)
                 (dict_set R1 coil_name
                    \<lparr>start = current_start, end_num = end_n, count = num_rows\<rparr>))
         else calc_loop f rest current_start R1)
      else calc_loop f rest current_start R1)"

text \<open>
  An empty coil list returns at once; otherwise the dictionary is replaced by an empty
  one and filled from the coils sorted (stably) by their number.
\<close>

definition calculate_coil_ranges :: "h5_file \<Rightarrow> string list \<Rightarrow> ranges \<Rightarrow> ranges" where
  "calculate_coil_ranges f available R =
     (if available = [] then R
      else calc_loop f (sort_key extract_coil_number available) 1 [])"

section \<open>The process state and \<open>handle_h5_file_loading\<close>\<close>

record data_store =
  ds_series :: "data_type \<Rightarrow> data_series option"
  ds_blank_info :: "int list"
  ds_boolean_info :: "real list"

text \<open>The module's global variables; \<open>data_store = None\<close> is the empty dictionary.\<close>

record app_state =
  data_store :: "data_store option"
  current_file_name :: "string option"
  selected_coil :: string
  available_coils :: "string list"
  selected_row :: int
  coil_blank_info_ranges :: ranges
  data_rows :: "nat option"

definition initial_state :: app_state where
  "initial_state =
     \<lparr>data_store = None, current_file_name = None, selected_coil = ''coil 50'',
      available_coils = [''coil 50'', ''coil 51'', ''coil 52''], selected_row = 0,
      coil_blank_info_ranges = [], data_rows = None\<rparr>"

text \<open>
  \<open>handle_h5_file_loading(file_path)\<close>, given the base name of the path and the file
  found there; returns the function's result and the globals after the call.
\<close>

definition handle_h5_file_loading :: "string \<Rightarrow> h5_file \<Rightarrow> app_state \<Rightarrow> bool \<times> app_state" where
  "handle_h5_file_loading file_name f g =
     (let g1 = g\<lparr>current_file_name := Some file_name\<rparr>;
          file_coils = coil_names f;
          g2 = (if file_coils \<noteq> [] then
                  g1\<lparr>available_coils := file_coils,
                     coil_blank_info_ranges :=
                       calculate_coil_ranges f file_coils (coil_blank_info_ranges g1),
                     selected_coil := (if selected_coil g1 \<in> set file_coils then selected_coil g1
                                       else hd file_coils)\<rparr>
                else g1\<lparr>available_coils := [], selected_coil := []\<rparr>);
          g3 = g2\<lparr>selected_row := 0\<rparr>;
          (dynamic_data, R1) =
             load_data_from_h5_dynamic f (selected_coil g3) (coil_blank_info_ranges g3);
          g4 = g3\<lparr>coil_blank_info_ranges := R1\<rparr>
      in if any_values dynamic_data then
           (let actual_num_rows = num_rows_of (series dynamic_data);
                (blank_info_data, R2) =
                  (case blank_info dynamic_data of
                     Some bi \<Rightarrow>
                       if length bi \<noteq> actual_num_rows
                       then generate_coil_blank_info (selected_coil g4) actual_num_rows R1
                       else (bi, R1)
                   | None \<Rightarrow> generate_coil_blank_info (selected_coil g4) actual_num_rows R1)
            in (True,
                g4\<lparr>coil_blank_info_ranges := R2,
                   data_store := Some \<lparr>ds_series = series dynamic_data,
                                        ds_blank_info = blank_info_data,
                                        ds_boolean_info = replicate (length blank_info_data) 0\<rparr>,
                   data_rows := Some actual_num_rows\<rparr>))
         else (False, g4))"

section \<open>Callbacks\<close>

text \<open>A callback returns a value for its output or \<open>dash.no_update\<close>.\<close>

datatype 'a callback_out = NoUpdate | Update 'a

text \<open>
  \<open>update_coil_and_reload(coil_value, pathname)\<close>; its one output is the URL path.
  \<open>files\<close> is \<open>find_file_path\<close> together with the existence test of the path.
\<close>

definition update_coil_and_reload ::
  "(string \<Rightarrow> h5_file option) \<Rightarrow> string option \<Rightarrow> string \<Rightarrow> app_state
     \<Rightarrow> string callback_out \<times> app_state" where
  "update_coil_and_reload files coil_value pathname g =
     (case coil_value of
        None \<Rightarrow> (NoUpdate, g)
      | Some cv \<Rightarrow>
          if cv \<noteq> [] \<and> cv \<noteq> selected_coil g then
            (let g1 = g\<lparr>selected_coil := cv, selected_row := 0\<rparr>;
                 g2 = (case current_file_name g1 of
                         None \<Rightarrow> g1
                       | Some file_name \<Rightarrow>
                           if file_name = [] then g1
                           else (case files file_name of
                                   None \<Rightarrow> g1
                                 | Some f \<Rightarrow> snd (handle_h5_file_loading file_name f g1)))
             in (Update pathname, g2))
          else (NoUpdate, g))"



section \<open>Row navigation: \<open>handle_row_selection\<close>\<close>

text \<open>
  The children of the hidden \<open>selected-row\<close> and \<open>max-row\<close> elements: unset (\<open>None\<close>
  or the empty string), the decimal string of an integer, or any other string.
\<close>

datatype store = Unset | Num int | Junk

text \<open>
  The input that fired: the previous and next buttons, a row button (its index and
  click count, \<open>None\<close> when the button is not found or never clicked), the jump button,
  the auto-advance interval.
\<close>

datatype trigger = PrevButton | NextButton | RowSelect int "int option" | JumpButton | AutoInterval

text \<open>The jump input: nothing, a value \<open>int()\<close> accepts, a value it rejects.\<close>

datatype jump_input = JNone | JInt int | JBad

text \<open>\<open>int(current_row) if current_row and str(current_row) != '-1' else 0\<close>\<close>

fun current_row_int_of :: "store \<Rightarrow> py_error + int" where
  "current_row_int_of Unset = Inr 0"
| "current_row_int_of (Num r) = Inr (if r = - 1 then 0 else r)"
| "current_row_int_of Junk = Inl ValueError"

text \<open>\<open>int(max_row) if max_row else 0\<close>\<close>

fun max_row_int_of :: "store \<Rightarrow> py_error + int" where
  "max_row_int_of Unset = Inr 0"
| "max_row_int_of (Num m) = Inr m"
| "max_row_int_of Junk = Inl ValueError"

text \<open>\<open>np.where(blank_info_data == target)[0]\<close>: the indices that match, ascending.\<close>

definition matching_indices :: "int list \<Rightarrow> int \<Rightarrow> nat list" where
  "matching_indices blank_info_data target =
     filter (\<lambda>i. blank_info_data ! i = target) [0..<length blank_info_data]"

text \<open>
  The jump branch.  \<open>None\<close> is the early \<open>return dash.no_update\<close>; \<open>Some r\<close> is the
  value \<open>new_row\<close> carries on to the end of the handler.  Without a stored data set
  the blank-info data is the empty list.
\<close>

definition jump_to_row :: "jump_input \<Rightarrow> int \<Rightarrow> data_store option \<Rightarrow> int option" where
  "jump_to_row jump_value max_row_int ds =
     (case jump_value of
        JNone \<Rightarrow> None
      | JBad \<Rightarrow> None
      | JInt target_blank_info \<Rightarrow>
          (let blank_info_data = (case ds of None \<Rightarrow> [] | Some d \<Rightarrow> ds_blank_info d) in
           if blank_info_data \<noteq> [] then
             (case matching_indices blank_info_data target_blank_info of
                [] \<Rightarrow> None
              | i # _ \<Rightarrow> if 0 \<le> int i \<and> int i < max_row_int then Some (int i) else None)
           else
             (let new_row = target_blank_info - 1
              in if 0 \<le> new_row \<and> new_row < max_row_int then Some new_row else None)))"

fun select_new_row ::
  "trigger \<Rightarrow> int \<Rightarrow> int \<Rightarrow> bool \<Rightarrow> jump_input \<Rightarrow> data_store option \<Rightarrow> int option" where
  "select_new_row PrevButton current_row_int max_row_int auto jump_value ds =
     Some (max 0 (current_row_int - 1))"
| "select_new_row NextButton current_row_int max_row_int auto jump_value ds =
     Some (min (max_row_int - 1) (current_row_int + 1))"
| "select_new_row (RowSelect row_index clicks) current_row_int max_row_int auto jump_value ds =
     (case clicks of Some c \<Rightarrow> if 0 < c then Some row_index else None | None \<Rightarrow> None)"
| "select_new_row JumpButton current_row_int max_row_int auto jump_value ds =
     jump_to_row jump_value max_row_int ds"
| "select_new_row AutoInterval current_row_int max_row_int auto jump_value ds =
     (if auto then Some ((current_row_int + 1) mod max_row_int) else None)"

text \<open>
  \<open>handle_row_selection\<close>; the output is the new content of \<open>selected-row\<close>,
  \<open>Update r\<close> for the string of \<open>r\<close>.
\<close>

definition handle_row_selection ::
  "trigger option \<Rightarrow> store \<Rightarrow> store \<Rightarrow> bool \<Rightarrow> jump_input \<Rightarrow> data_store option
     \<Rightarrow> int callback_out" where
  "handle_row_selection triggered current_row max_row auto_advance_state jump_value ds =
     (case triggered of
        None \<Rightarrow> NoUpdate
      | Some trig \<Rightarrow>
          (case (current_row_int_of current_row, max_row_int_of max_row) of
             (Inr current_row_int, Inr max_row_int) \<Rightarrow>
               if max_row_int \<le> 0 then Update 0
               else (case select_new_row trig current_row_int max_row_int auto_advance_state
                            jump_value ds of
                       None \<Rightarrow> NoUpdate
                     | Some new_row \<Rightarrow>
                         (let bounded = max 0 (min new_row (max_row_int - 1))
                          in if bounded \<noteq> current_row_int then Update bounded else NoUpdate))
           | _ \<Rightarrow> Update 0))"

text \<open>The content of an element after a callback wrote its output to it.\<close>

fun after_callback :: "store \<Rightarrow> int callback_out \<Rightarrow> store" where
  "after_callback s NoUpdate = s"
| "after_callback s (Update r) = Num r"

text \<open>
  \<open>handle_fullscreen_navigation\<close>; the click counts are \<open>None\<close> before the first
  click.  The conversions are not guarded here, so a malformed string raises.
\<close>

datatype fs_trigger = FullscreenPrevRow | FullscreenNextRow

definition handle_fullscreen_navigation ::
  "fs_trigger option \<Rightarrow> nat option \<Rightarrow> nat option \<Rightarrow> store \<Rightarrow> store
     \<Rightarrow> py_error + int callback_out" where
  "handle_fullscreen_navigation triggered prev_clicks next_clicks current_row max_row =
     (case triggered of
        None \<Rightarrow> Inr NoUpdate
      | Some button_id \<Rightarrow>
          (case current_row of
             Unset \<Rightarrow> Inr NoUpdate
           | Junk \<Rightarrow> Inl ValueError
           | Num current_row_int \<Rightarrow>
               if current_row_int = - 1 then Inr NoUpdate
               else (case max_row_int_of max_row of
                       Inl e \<Rightarrow> Inl e
                     | Inr max_row_int \<Rightarrow>
                         if button_id = FullscreenPrevRow \<and> prev_clicks \<noteq> None
                            \<and> prev_clicks \<noteq> Some 0
                         then Inr (Update (max 0 (current_row_int - 1)))
                         else if button_id = FullscreenNextRow \<and> next_clicks \<noteq> None
                            \<and> next_clicks \<noteq> Some 0
                         then Inr (Update (min (max_row_int - 1) (current_row_int + 1)))
                         else Inr NoUpdate)))"



section \<open>Properties the specification names\<close>

text \<open>
  The fallback chain as the specification words it, for one axis: the first success of
  the attribute lookup, the sibling dataset, the column mean of the actual array.
\<close>

definition spec_reference_chain ::
  "real list option \<Rightarrow> real list option \<Rightarrow> real list list \<Rightarrow> real list option" where
  "spec_reference_chain from_attr from_dataset actual =
     (case from_attr of
        Some v \<Rightarrow> Some v
      | None \<Rightarrow>
          (case from_dataset of
             Some d \<Rightarrow> Some d
           | None \<Rightarrow> if 0 < array_size actual then Some (col_mean actual) else None))"



text \<open>The start the next new range gets: one past the end of the last range, or 1.\<close>

definition next_start :: "ranges \<Rightarrow> int" where
  "next_start R = (if R = [] then 1 else end_num (snd (last R)) + 1)"


section \<open>Example files\<close>

text \<open>
  A data group with \<open>rows\<close> measured curves of two points each, no reference
  attributes and no reference datasets: its reference is the column mean.
\<close>

definition plain_group :: "nat \<Rightarrow> data_group" where
  "plain_group rows =
     \<lparr>x_data = Array2 (replicate rows [0, 1]), z_data = Array2 (replicate rows [0, 1]),
      attrs = Map.empty, ref_x_data = None, ref_z_data = None\<rparr>"

text \<open>The example of the specification: coil50 with 12 rows, coil51 with 8 rows.\<close>

definition file_two_coils :: h5_file where
  "file_two_coils =
     \<lparr>coil_names = [''coil50'', ''coil51''],
      coil_groups = (\<lambda>coil dt.
         if coil = ''coil50'' \<and> dt = Screwdown then Some (plain_group 12)
         else if coil = ''coil51'' \<and> dt = Screwdown then Some (plain_group 8)
         else None)\<rparr>"

text \<open>A file with the single coil 50 (two rows).\<close>

definition file_one_coil :: h5_file where
  "file_one_coil =
     \<lparr>coil_names = [''coil 50''],
      coil_groups = (\<lambda>coil dt.
         if coil = ''coil 50'' \<and> dt = Screwdown then Some (plain_group 2) else None)\<rparr>"

text \<open>A file that has coil 49 (one row) before coil 50 (two rows).\<close>

definition file_earlier_coil :: h5_file where
  "file_earlier_coil =
     \<lparr>coil_names = [''coil 49'', ''coil 50''],
      coil_groups = (\<lambda>coil dt.
         if coil = ''coil 49'' \<and> dt = Screwdown then Some (plain_group 1)
         else if coil = ''coil 50'' \<and> dt = Screwdown then Some (plain_group 2)
         else None)\<rparr>"


text \<open>
  A group with a reference attribute for X only, and both sibling reference datasets.
\<close>

definition group_mixed_reference :: data_group where
  "group_mixed_reference =
     \<lparr>x_data = Array2 [[0, 1]], z_data = Array2 [[0, 1]],
      attrs = [''ref_x'' \<mapsto> [1, 2]], ref_x_data = Some [7, 8], ref_z_data = Some [0, 0]\<rparr>"


text \<open>A group whose reference attributes have three and two points.\<close>

definition group_unequal_reference :: data_group where
  "group_unequal_reference =
     \<lparr>x_data = Array2 [[0, 1]], z_data = Array2 [[0, 1]],
      attrs = [''ref_x'' \<mapsto> [1, 2, 3], ''ref_z'' \<mapsto> [1, 2]], ref_x_data = None, ref_z_data = None\<rparr>"

text \<open>A coil with that group as screwdown data and a plain group as bending data.\<close>

definition file_one_bad_type :: h5_file where
  "file_one_bad_type =
     \<lparr>coil_names = [''coil 50''],
      coil_groups = (\<lambda>coil dt.
         if coil = ''coil 50'' \<and> dt = Screwdown then Some group_unequal_reference
         else if coil = ''coil 50'' \<and> dt = Bending then Some (plain_group 1)
         else None)\<rparr>"

section \<open>Properties of the reference densification\<close>








section \<open>Row navigation steps\<close>

text \<open>
  Claim C5.  With \<open>max_row > 0\<close> and the current row in \<open>[0, max_row - 1]\<close>: the
  previous button leaves the row at \<open>max(0, row - 1)\<close> and the next button at
  \<open>min(max_row - 1, row + 1)\<close>, in the table view and in the fullscreen view, and both
  values lie in \<open>[0, max_row - 1]\<close>; a tick of the interval with auto-advance on leaves
  the row at \<open>(row + 1) mod max_row\<close>, which is row 0 from the last row; a tick with
  auto-advance off gives no update.
\<close>

theorem row_navigation_steps:
  assumes "0 \<le> row" "row < m" "0 < c"
  shows "after_callback (Num row) (handle_row_selection (Some PrevButton) (Num row) (Num m) aa jv ds)
           = Num (max 0 (row - 1))
       \<and> after_callback (Num row) (handle_row_selection (Some NextButton) (Num row) (Num m) aa jv ds)
           = Num (min (m - 1) (row + 1))
       \<and> handle_fullscreen_navigation (Some FullscreenPrevRow) (Some c) nc (Num row) (Num m)
           = Inr (Update (max 0 (row - 1)))
       \<and> handle_fullscreen_navigation (Some FullscreenNextRow) pc (Some c) (Num row) (Num m)
           = Inr (Update (min (m - 1) (row + 1)))
       \<and> 0 \<le> max 0 (row - 1) \<and> max 0 (row - 1) < m
       \<and> 0 \<le> min (m - 1) (row + 1) \<and> min (m - 1) (row + 1) < m
       \<and> after_callback (Num row) (handle_row_selection (Some AutoInterval) (Num row) (Num m) True jv ds)
           = Num ((row + 1) mod m)
       \<and> (if row = m - 1 then (row + 1) mod m = 0 else (row + 1) mod m = row + 1)
       \<and> handle_row_selection (Some AutoInterval) (Num row) (Num m) False jv ds = NoUpdate"
proof -
  have m_pos: "0 < m" using assms by auto
  have prev: "after_callback (Num row) (handle_row_selection (Some PrevButton) (Num row) (Num m) aa jv ds)
           = Num (max 0 (row - 1))"
    using assms by (auto simp: handle_row_selection_def Let_def)
  have nxt: "after_callback (Num row) (handle_row_selection (Some NextButton) (Num row) (Num m) aa jv ds)
           = Num (min (m - 1) (row + 1))"
    using assms by (auto simp: handle_row_selection_def Let_def)
  have fsp: "handle_fullscreen_navigation (Some FullscreenPrevRow) (Some c) nc (Num row) (Num m)
           = Inr (Update (max 0 (row - 1)))"
    using assms by (simp add: handle_fullscreen_navigation_def)
  have fsn: "handle_fullscreen_navigation (Some FullscreenNextRow) pc (Some c) (Num row) (Num m)
           = Inr (Update (min (m - 1) (row + 1)))"
    using assms by (simp add: handle_fullscreen_navigation_def)
  have modm: "0 \<le> (row + 1) mod m" "(row + 1) mod m < m"
    using m_pos by simp_all
  have auto_on: "after_callback (Num row) (handle_row_selection (Some AutoInterval) (Num row) (Num m) True jv ds)
           = Num ((row + 1) mod m)"
    using assms modm by (auto simp: handle_row_selection_def Let_def)
  have wrap: "if row = m - 1 then (row + 1) mod m = 0 else (row + 1) mod m = row + 1"
    using assms by simp
  have auto_off: "handle_row_selection (Some AutoInterval) (Num row) (Num m) False jv ds = NoUpdate"
    using assms by (simp add: handle_row_selection_def)
  show ?thesis
    using prev nxt fsp fsn auto_on wrap auto_off assms by simp
qed

text \<open>At the last of ten rows: next stays, previous steps back, the tick wraps to row 0.\<close>

theorem row_navigation_steps_witness:
  "(0::int) \<le> 9 \<and> (9::int) < 10 \<and> (0::nat) < 1
   \<and> after_callback (Num 9) (handle_row_selection (Some NextButton) (Num 9) (Num 10) False JNone None) = Num 9
   \<and> after_callback (Num 9) (handle_row_selection (Some PrevButton) (Num 9) (Num 10) False JNone None) = Num 8
   \<and> after_callback (Num 9) (handle_row_selection (Some AutoInterval) (Num 9) (Num 10) True JNone None) = Num 0"
  using row_navigation_steps[of 9 10 1 False JNone None None None]
  by simp

section \<open>Jumping to a blank-info number\<close>







section \<open>Blank-info arrays of a loaded data set\<close>

lemmas model_defs =
  load_data_type_def reshape_rows_def resolve_reference_def ref_attr_names_def
  ref_attr_names_z_def array_size_def col_mean_def generate_reference_display_def
  load_data_from_h5_dynamic_def num_rows_of_def generate_coil_blank_info_def arange_def
  any_values_def calculate_coil_ranges_def extract_coil_number_def digit_value_def
  handle_h5_file_loading_def update_coil_and_reload_def initial_state_def
  plain_group_def Let_def upt_conv_Cons upto.simps eval_nat_numeral

lemma arange_length: "length (arange a (a + int n)) = n"
  by (simp add: arange_def)

lemma arange_nth: "i < n \<Longrightarrow> arange a (a + int n) ! i = a + int i"
  by (simp add: arange_def)

lemma arange_distinct: "distinct (arange a b)"
  by (simp add: arange_def)

lemma filter_eq_index: "filter (\<lambda>j. j = i) [0..<n] = (if i < n then [i] else [])"
  by (induction n) auto

lemma matching_indices_distinct:
  assumes "distinct xs" "i < length xs"
  shows "matching_indices xs (xs ! i) = [i]"
proof -
  have "filter (\<lambda>j. xs ! j = xs ! i) [0..<length xs] = filter (\<lambda>j. j = i) [0..<length xs]"
    using assms by (intro filter_cong) (auto simp: nth_eq_iff_index_eq)
  then show ?thesis
    using assms by (simp add: matching_indices_def filter_eq_index)
qed

lemma generate_coil_blank_info_arange:
  "\<exists>s. fst (generate_coil_blank_info c n R) = arange s (s + int n)"
  by (auto simp: generate_coil_blank_info_def Let_def split: option.splits)

lemma load_blank_info_arange:
  assumes "load_data_from_h5_dynamic f c R = (d, R')" "blank_info d = Some bi"
  shows "\<exists>s. bi = arange s (s + int (num_rows_of (series d)))"
proof (cases "coil_groups f c Screwdown = None \<and> coil_groups f c Bending = None
              \<and> coil_groups f c Profile = None")
  case True
  then show ?thesis using assms by (auto simp: load_data_from_h5_dynamic_def)
next
  case False
  let ?res = "\<lambda>dt. case coil_groups f c dt of None \<Rightarrow> None | Some g \<Rightarrow> load_data_type dt g"
  show ?thesis
  proof (cases "0 < num_rows_of ?res")
    case True
    obtain s where s: "fst (generate_coil_blank_info c (num_rows_of ?res) R)
                        = arange s (s + int (num_rows_of ?res))"
      using generate_coil_blank_info_arange by blast
    have "series d = ?res" "bi = fst (generate_coil_blank_info c (num_rows_of ?res) R)"
      using assms False True
      by (auto simp: load_data_from_h5_dynamic_def Let_def split: prod.splits)
    then show ?thesis using s by auto
  next
    case zero: False
    have "series d = ?res" "bi = []"
      using assms False zero
      by (auto simp: load_data_from_h5_dynamic_def Let_def split: prod.splits)
    then show ?thesis using zero by (auto simp: arange_def)
  qed
qed

lemma handle_h5_file_loading_store:
  assumes "handle_h5_file_loading file_name f g = (True, g')"
  shows "\<exists>ds s. data_store g' = Some ds
           \<and> ds_blank_info ds = arange s (s + int (num_rows_of (ds_series ds)))
           \<and> data_rows g' = Some (num_rows_of (ds_series ds))"
proof -
  define sc where "sc = (if coil_names f \<noteq> []
      then (if selected_coil g \<in> set (coil_names f) then selected_coil g else hd (coil_names f))
      else [])"
  define R0 where "R0 = (if coil_names f \<noteq> []
      then calculate_coil_ranges f (coil_names f) (coil_blank_info_ranges g)
      else coil_blank_info_ranges g)"
  obtain d R1 where ld: "load_data_from_h5_dynamic f sc R0 = (d, R1)"
    by (cases "load_data_from_h5_dynamic f sc R0") auto
  obtain s0 where s0: "fst (generate_coil_blank_info sc (num_rows_of (series d)) R1)
        = arange s0 (s0 + int (num_rows_of (series d)))"
    using generate_coil_blank_info_arange by blast
  have ld': "\<And>bi. blank_info d = Some bi \<Longrightarrow> \<exists>s. bi = arange s (s + int (num_rows_of (series d)))"
    using load_blank_info_arange[OF ld] by blast
  show ?thesis
    using assms ld s0 ld'
    unfolding handle_h5_file_loading_def sc_def R0_def
    by (auto simp: Let_def split: if_splits prod.splits option.splits)
qed

lemma two_coils_second_loaded:
  "(fst (handle_h5_file_loading ''a.h5'' file_two_coils (initial_state\<lparr>selected_coil := ''coil51''\<rparr>)),
    map_option ds_blank_info (data_store (snd
      (handle_h5_file_loading ''a.h5'' file_two_coils (initial_state\<lparr>selected_coil := ''coil51''\<rparr>)))))
   = (True, Some [13, 14, 15, 16, 17, 18, 19, 20])"
  by (simp add: model_defs file_two_coils_def)

lemma load_series:
  "series (fst (load_data_from_h5_dynamic f coil R)) dt
     = (case coil_groups f coil dt of None \<Rightarrow> None | Some g \<Rightarrow> load_data_type dt g)"
  by (cases dt) (auto simp: load_data_from_h5_dynamic_def Let_def split: prod.splits)

lemma num_rows_of_max:
  "num_rows_of ser =
     max (max (case ser Screwdown of None \<Rightarrow> 0 | Some s \<Rightarrow> length (actual_x s))
              (case ser Bending of None \<Rightarrow> 0 | Some s \<Rightarrow> length (actual_x s)))
         (case ser Profile of None \<Rightarrow> 0 | Some s \<Rightarrow> length (actual_x s))"
  by (simp add: num_rows_of_def split: option.splits)


lemma num_rows_of_attained:
  "0 < num_rows_of ser \<Longrightarrow> \<exists>dt s. ser dt = Some s \<and> length (actual_x s) = num_rows_of ser"
proof -
  assume pos: "0 < num_rows_of ser"
  let ?r = "\<lambda>dt. case ser dt of None \<Rightarrow> 0 | Some s \<Rightarrow> length (actual_x s)"
  have "num_rows_of ser = ?r Screwdown \<or> num_rows_of ser = ?r Bending \<or> num_rows_of ser = ?r Profile"
    unfolding num_rows_of_max by (simp add: max_def)
  then obtain dt where dt: "num_rows_of ser = ?r dt" by blast
  with pos obtain s where "ser dt = Some s" by (cases "ser dt") auto
  with dt show ?thesis by auto
qed

text \<open>
  Claim C4.  In a data set stored by a successful load, the blank-info array has no
  repeated value: looking up the value at a valid row index \<open>i\<close> matches at \<open>i\<close>
  alone, so the first match is \<open>i\<close>, and the jump branch of the handler resolves it
  to row \<open>i\<close> (when \<open>i\<close> is below the row bound it is given).
\<close>

theorem blank_info_round_trip:
  assumes "handle_h5_file_loading file_name f g = (True, g')" "data_store g' = Some ds"
    "i < length (ds_blank_info ds)"
  shows "matching_indices (ds_blank_info ds) (ds_blank_info ds ! i) = [i]
       \<and> jump_to_row (JInt (ds_blank_info ds ! i)) m (Some ds)
           = (if int i < m then Some (int i) else None)"
proof -
  obtain s where "ds_blank_info ds = arange s (s + int (num_rows_of (ds_series ds)))"
    using handle_h5_file_loading_store[OF assms(1)] assms(2) by auto
  then have "distinct (ds_blank_info ds)" by (simp add: arange_distinct)
  then have m: "matching_indices (ds_blank_info ds) (ds_blank_info ds ! i) = [i]"
    using assms(3) by (rule matching_indices_distinct)
  have "ds_blank_info ds \<noteq> []" using assms(3) by auto
  then show ?thesis using m by (simp add: jump_to_row_def)
qed

text \<open>The example of the specification: on coil51, blank info 15 is row index 2.\<close>

theorem blank_info_round_trip_witness:
  "\<exists>g' ds. handle_h5_file_loading ''a.h5'' file_two_coils (initial_state\<lparr>selected_coil := ''coil51''\<rparr>)
              = (True, g')
     \<and> data_store g' = Some ds \<and> (2::nat) < length (ds_blank_info ds)
     \<and> ds_blank_info ds ! 2 = 15
     \<and> matching_indices (ds_blank_info ds) 15 = [2]
     \<and> jump_to_row (JInt 15) 8 (Some ds) = Some 2"
proof -
  let ?r = "handle_h5_file_loading ''a.h5'' file_two_coils (initial_state\<lparr>selected_coil := ''coil51''\<rparr>)"
  have run: "?r = (True, snd ?r)"
    using two_coils_second_loaded by (metis prod.collapse prod.inject)
  obtain ds where ds: "data_store (snd ?r) = Some ds"
      "ds_blank_info ds = [13, 14, 15, 16, 17, 18, 19, 20]"
    using two_coils_second_loaded by auto
  have i: "2 < length (ds_blank_info ds)" using ds by simp
  show ?thesis
    using blank_info_round_trip[OF run ds(1) i, of 8] run ds by auto
qed

section \<open>Resolving the reference curves\<close>

lemma unequal_reference_resolved:
  "resolve_reference Screwdown group_unequal_reference
     (reshape_rows (x_data group_unequal_reference)) (reshape_rows (z_data group_unequal_reference))
   = (Some [1, 2, 3], Some [1, 2])"
  by (simp add: resolve_reference_def group_unequal_reference_def ref_attr_names_def
        ref_attr_names_z_def reshape_rows_def)

text \<open>
  Claim C8, as the code has it.  Each reference is the first success of the chain
  attribute, sibling dataset, column mean of the actual array, with one exception: when
  the attribute of one axis is found and the attribute of the other axis is not, a
  sibling dataset that exists for the found axis replaces the attribute value.  A data
  type whose reference is missing for either axis after that, or whose two references
  differ in length, is left out of the result; the entry of every data type depends on
  its own group alone, so the other data types still load.
\<close>

theorem reference_fallback_chain:
  assumes "resolve_reference dt g (reshape_rows (x_data g)) (reshape_rows (z_data g)) = (rx, rz)"
    "attr_x = first_attr (attrs g) (ref_attr_names dt)"
    "attr_z = first_attr (attrs g) (ref_attr_names_z dt)"
  shows "rx = (if attr_x \<noteq> None \<and> attr_z = None \<and> ref_x_data g \<noteq> None then ref_x_data g
               else spec_reference_chain attr_x (ref_x_data g) (reshape_rows (x_data g)))
       \<and> rz = (if attr_z \<noteq> None \<and> attr_x = None \<and> ref_z_data g \<noteq> None then ref_z_data g
               else spec_reference_chain attr_z (ref_z_data g) (reshape_rows (z_data g)))
       \<and> (rx = None \<or> rz = None \<or> map_option length rx \<noteq> map_option length rz
            \<longrightarrow> load_data_type dt g = None)
       \<and> series (fst (load_data_from_h5_dynamic f coil R)) dt'
            = (case coil_groups f coil dt' of None \<Rightarrow> None | Some g' \<Rightarrow> load_data_type dt' g')"
proof -
  have x: "rx = (if attr_x \<noteq> None \<and> attr_z = None \<and> ref_x_data g \<noteq> None then ref_x_data g
               else spec_reference_chain attr_x (ref_x_data g) (reshape_rows (x_data g)))"
    using assms
    by (auto simp: resolve_reference_def spec_reference_chain_def Let_def split: option.splits)
  have z: "rz = (if attr_z \<noteq> None \<and> attr_x = None \<and> ref_z_data g \<noteq> None then ref_z_data g
               else spec_reference_chain attr_z (ref_z_data g) (reshape_rows (z_data g)))"
    using assms
    by (auto simp: resolve_reference_def spec_reference_chain_def Let_def split: option.splits)
  have excl: "rx = None \<or> rz = None \<or> map_option length rx \<noteq> map_option length rz
            \<longrightarrow> load_data_type dt g = None"
    using assms(1) by (auto simp: load_data_type_def Let_def split: option.splits)
  show ?thesis using x z excl load_series by blast
qed

text \<open>
  Reference attributes of three and of two points: the screwdown data is left out, the
  bending data of the same coil loads.
\<close>

theorem reference_fallback_chain_witness:
  "resolve_reference Screwdown group_unequal_reference
     (reshape_rows (x_data group_unequal_reference)) (reshape_rows (z_data group_unequal_reference))
   = (Some [1, 2, 3], Some [1, 2])
   \<and> load_data_type Screwdown group_unequal_reference = None
   \<and> series (fst (load_data_from_h5_dynamic file_one_bad_type ''coil 50'' [])) Screwdown = None
   \<and> series (fst (load_data_from_h5_dynamic file_one_bad_type ''coil 50'' [])) Bending
       = load_data_type Bending (plain_group 1)
   \<and> load_data_type Bending (plain_group 1) \<noteq> None"
proof -
  note r = unequal_reference_resolved
  have loaded: "load_data_type Bending (plain_group 1) \<noteq> None"
    by (simp add: model_defs)
  from reference_fallback_chain[OF r refl refl, of file_one_bad_type "''coil 50''" "[]" Bending]
       reference_fallback_chain[OF r refl refl, of file_one_bad_type "''coil 50''" "[]" Screwdown]
  show ?thesis using r loaded
    by (simp add: file_one_bad_type_def)
qed

text \<open>
  Claim C8 as stated fails for a group with the attribute \<open>ref_x\<close>, no attribute for
  Z, and both sibling datasets: the first success for X is the attribute value 1, 2, but
  the code resolves X to the sibling dataset 7, 8, which is what the display is built from.
\<close>

theorem reference_fallback_chain_counterexample:
  "first_attr (attrs group_mixed_reference) (ref_attr_names Profile) = Some [1, 2]
   \<and> spec_reference_chain (first_attr (attrs group_mixed_reference) (ref_attr_names Profile))
        (ref_x_data group_mixed_reference) (reshape_rows (x_data group_mixed_reference)) = Some [1, 2]
   \<and> fst (resolve_reference Profile group_mixed_reference
        (reshape_rows (x_data group_mixed_reference)) (reshape_rows (z_data group_mixed_reference)))
       = Some [7, 8]
   \<and> map_option ref_x (load_data_type Profile group_mixed_reference) = Some [7, 15 / 2, 8]"
  by (simp add: resolve_reference_def group_mixed_reference_def ref_attr_names_def
        ref_attr_names_z_def reshape_rows_def spec_reference_chain_def load_data_type_def
        generate_reference_display_def)

section \<open>Blank-info length and the row bound\<close>




section \<open>The range dictionary stays contiguous\<close>

lemma dict_set_keys: "fst ` set (dict_set R k v) = insert k (fst ` set R)"
  by (induction R) force+



lemma map_of_dict_set: "map_of (dict_set R k v) k' = (if k' = k then Some v else map_of R k')"
  by (induction R) auto







lemma generate_known:
  "map_of R c = Some r \<Longrightarrow> snd (generate_coil_blank_info c n R) = R"
  by (simp add: generate_coil_blank_info_def)



lemma next_start_append:
  "next_start (R @ [(c, \<lparr>start = a, end_num = b, count = n\<rparr>)]) = b + 1"
  by (simp add: next_start_def)


lemma load_ranges_file:
  "snd (load_data_from_h5_dynamic f c R) =
     (let rows = num_rows_of (\<lambda>dt. case coil_groups f c dt of None \<Rightarrow> None
                                                            | Some g \<Rightarrow> load_data_type dt g)
      in if 0 < rows then snd (generate_coil_blank_info c rows R) else R)"
proof (cases "coil_groups f c Screwdown = None \<and> coil_groups f c Bending = None
              \<and> coil_groups f c Profile = None")
  case True
  then have "num_rows_of (\<lambda>dt. case coil_groups f c dt of None \<Rightarrow> None
                                                       | Some g \<Rightarrow> load_data_type dt g) = 0"
    by (simp add: num_rows_of_max)
  then show ?thesis using True by (simp add: load_data_from_h5_dynamic_def)
next
  case False
  show ?thesis
    unfolding load_data_from_h5_dynamic_def Let_def if_not_P[OF False]
    by (simp split: prod.splits)
qed

lemma load_series_fun:
  "series (fst (load_data_from_h5_dynamic f c R))
     = (\<lambda>dt. case coil_groups f c dt of None \<Rightarrow> None | Some g \<Rightarrow> load_data_type dt g)"
  by (rule ext) (rule load_series)

lemma load_ranges:
  "snd (load_data_from_h5_dynamic f c R) =
     (if 0 < num_rows_of (series (fst (load_data_from_h5_dynamic f c R)))
      then snd (generate_coil_blank_info c (num_rows_of (series (fst (load_data_from_h5_dynamic f c R)))) R)
      else R)"
  unfolding load_series_fun using load_ranges_file[of f c R] by (simp add: Let_def)

lemma load_any_values:
  assumes "0 < num_rows_of (series d)"
  shows "any_values d"
proof -
  obtain dt s where "series d dt = Some s"
    using num_rows_of_attained[OF assms] by blast
  then show ?thesis by (cases dt) (simp_all add: any_values_def)
qed








section \<open>What a load does to the range dictionary\<close>

lemma generate_preserves:
  "map_of R c' = Some r \<Longrightarrow> map_of (snd (generate_coil_blank_info c n R)) c' = Some r"
  by (cases "map_of R c") (auto simp: generate_coil_blank_info_def Let_def map_of_dict_set)

lemma load_preserves:
  "map_of R c' = Some r \<Longrightarrow> map_of (snd (load_data_from_h5_dynamic f c R)) c' = Some r"
  using load_ranges[of f c R] generate_preserves by auto

lemma generate_keys: "fst ` set R \<subseteq> fst ` set (snd (generate_coil_blank_info c n R))"
  by (cases "map_of R c") (auto simp: generate_coil_blank_info_def Let_def dict_set_keys)

lemma load_keys: "fst ` set R \<subseteq> fst ` set (snd (load_data_from_h5_dynamic f c R))"
  using load_ranges[of f c R] generate_keys[of R c] by auto

lemma calc_loop_keeps_keys:
  "k \<in> fst ` set R \<Longrightarrow> k \<in> fst ` set (calc_loop f cs cur R)"
proof (induction cs arbitrary: cur R)
  case Nil
  then show ?case by simp
next
  case (Cons c cs)
  obtain d R1 where ld: "load_data_from_h5_dynamic f c R = (d, R1)"
    by (cases "load_data_from_h5_dynamic f c R") auto
  have k1: "k \<in> fst ` set R1" using load_keys[of R f c] ld Cons.prems by auto
  then have k2: "k \<in> fst ` set (dict_set R1 c v)" for v by (simp add: dict_set_keys)
  show ?case
    using ld Cons.IH[OF k1] Cons.IH[OF k2] by (simp add: Let_def)
qed

lemma calc_loop_allocates:
  assumes "c \<in> set cs"
    "0 < num_rows_of (\<lambda>dt. case coil_groups f c dt of None \<Rightarrow> None | Some g \<Rightarrow> load_data_type dt g)"
  shows "c \<in> fst ` set (calc_loop f cs cur R)"
  using assms(1)
proof (induction cs arbitrary: cur R)
  case Nil
  then show ?case by simp
next
  case (Cons a cs)
  obtain d R1 where ld: "load_data_from_h5_dynamic f a R = (d, R1)"
    by (cases "load_data_from_h5_dynamic f a R") auto
  show ?case
  proof (cases "a = c")
    case True
    have ser: "series d = (\<lambda>dt. case coil_groups f c dt of None \<Rightarrow> None | Some g \<Rightarrow> load_data_type dt g)"
      using load_series_fun[of f a R] ld True by simp
    then have pos: "0 < num_rows_of (series d)" using assms(2) by simp
    have "c \<in> fst ` set (dict_set R1 a v)" for v using True by (simp add: dict_set_keys)
    from calc_loop_keeps_keys[OF this] show ?thesis
      using ld pos load_any_values[OF pos] by (simp add: Let_def)
  next
    case False
    with Cons.prems have "c \<in> set cs" by simp
    from Cons.IH[OF this] show ?thesis using ld by (simp add: Let_def)
  qed
qed

lemma load_blank_info_length:
  assumes "load_data_from_h5_dynamic f c R = (d, R')" "any_values d"
  shows "\<exists>bi. blank_info d = Some bi \<and> length bi = num_rows_of (series d)"
proof (cases "blank_info d")
  case None
  have "coil_groups f c Screwdown = None \<and> coil_groups f c Bending = None
              \<and> coil_groups f c Profile = None"
  proof (rule ccontr)
    assume n: "\<not> ?thesis"
    have "blank_info (fst (load_data_from_h5_dynamic f c R)) \<noteq> None"
      unfolding load_data_from_h5_dynamic_def Let_def if_not_P[OF n]
      by (simp split: prod.splits)
    then show False using assms(1) None by simp
  qed
  then have "series d dt = None" for dt
    using load_series[of f c R dt] assms(1) by (cases dt) simp_all
  then show ?thesis using assms(2) None by (simp add: any_values_def)
next
  case (Some bi)
  then show ?thesis using load_blank_info_arange[OF assms(1) Some] by (auto simp: arange_length)
qed

lemma handle_ranges:
  "coil_blank_info_ranges (snd (handle_h5_file_loading file_name f g)) =
     snd (load_data_from_h5_dynamic f
            (if coil_names f \<noteq> []
             then (if selected_coil g \<in> set (coil_names f) then selected_coil g else hd (coil_names f))
             else [])
            (if coil_names f \<noteq> []
             then calculate_coil_ranges f (coil_names f) (coil_blank_info_ranges g)
             else coil_blank_info_ranges g))"
proof -
  define sc where "sc = (if coil_names f \<noteq> []
      then (if selected_coil g \<in> set (coil_names f) then selected_coil g else hd (coil_names f))
      else [])"
  define R0 where "R0 = (if coil_names f \<noteq> []
      then calculate_coil_ranges f (coil_names f) (coil_blank_info_ranges g)
      else coil_blank_info_ranges g)"
  obtain d R1 where ld: "load_data_from_h5_dynamic f sc R0 = (d, R1)"
    by (cases "load_data_from_h5_dynamic f sc R0") auto
  have len: "any_values d \<Longrightarrow> \<exists>bi. blank_info d = Some bi \<and> length bi = num_rows_of (series d)"
    using load_blank_info_length[OF ld] by simp
  have "coil_blank_info_ranges (snd (handle_h5_file_loading file_name f g)) = R1"
    using ld len
    unfolding handle_h5_file_loading_def sc_def R0_def
    by (auto simp: Let_def split: if_splits prod.splits option.splits)
  then show ?thesis using ld unfolding sc_def R0_def by simp
qed

lemma handle_ranges_with_coils:
  assumes "coil_names f \<noteq> []"
  shows "coil_blank_info_ranges (snd (handle_h5_file_loading file_name f g))
           = calculate_coil_ranges f (coil_names f) []"
proof -
  let ?sc = "if selected_coil g \<in> set (coil_names f) then selected_coil g else hd (coil_names f)"
  let ?R0 = "calculate_coil_ranges f (coil_names f) []"
  let ?rows = "num_rows_of (\<lambda>dt. case coil_groups f ?sc dt of None \<Rightarrow> None
                                                          | Some g \<Rightarrow> load_data_type dt g)"
  have R0: "calculate_coil_ranges f (coil_names f) (coil_blank_info_ranges g) = ?R0"
    using assms by (simp add: calculate_coil_ranges_def)
  have sc: "?sc \<in> set (coil_names f)" using assms by simp
  have "snd (load_data_from_h5_dynamic f ?sc ?R0) = ?R0"
  proof (cases "0 < ?rows")
    case True
    have "?sc \<in> set (sort_key extract_coil_number (coil_names f))" using sc by simp
    from calc_loop_allocates[OF this True, of 1 "[]"]
    have "?sc \<in> fst ` set ?R0" using assms by (simp add: calculate_coil_ranges_def)
    then obtain r where "map_of ?R0 ?sc = Some r"
      by (metis map_of_eq_None_iff not_None_eq)
    from generate_known[OF this] show ?thesis
      using load_ranges_file[of f ?sc ?R0] True by (simp add: Let_def)
  next
    case False
    then show ?thesis using load_ranges_file[of f ?sc ?R0] by (simp add: Let_def)
  qed
  then show ?thesis using handle_ranges[of file_name f g] assms R0 by simp
qed

lemma one_coil_ranges:
  "calculate_coil_ranges file_one_coil (coil_names file_one_coil) []
     = [(''coil 50'', \<lparr>start = 1, end_num = 2, count = 2\<rparr>)]"
  by (simp add: model_defs file_one_coil_def)

lemma earlier_coil_ranges:
  "calculate_coil_ranges file_earlier_coil (coil_names file_earlier_coil) []
     = [(''coil 49'', \<lparr>start = 1, end_num = 1, count = 1\<rparr>),
        (''coil 50'', \<lparr>start = 2, end_num = 3, count = 2\<rparr>)]"
  by (simp add: model_defs file_earlier_coil_def)

text \<open>
  Claim C2, as the code has it.  A range that exists is left unchanged by a call of
  \<open>generate_coil_blank_info\<close> for any coil (a lazy allocation appends) and by loading
  any coil, hence also by loading a file in which no coil is found.  Loading a file in
  which coils are found replaces the dictionary by the one computed from that file
  alone: what was allocated before has no influence on the result.
\<close>

theorem existing_ranges_kept:
  assumes "map_of R c' = Some r"
  shows "map_of (snd (generate_coil_blank_info c n R)) c' = Some r
       \<and> map_of (snd (load_data_from_h5_dynamic f c R)) c' = Some r
       \<and> (coil_names f = [] \<longrightarrow> coil_blank_info_ranges g = R \<longrightarrow>
            map_of (coil_blank_info_ranges (snd (handle_h5_file_loading file_name f g))) c' = Some r)
       \<and> (coil_names f' \<noteq> [] \<longrightarrow>
            coil_blank_info_ranges (snd (handle_h5_file_loading file_name f' g))
              = calculate_coil_ranges f' (coil_names f') [])"
proof -
  have a: "map_of (snd (generate_coil_blank_info c n R)) c' = Some r"
    using assms by (rule generate_preserves)
  have b: "map_of (snd (load_data_from_h5_dynamic f c R)) c' = Some r"
    using assms by (rule load_preserves)
  have c: "coil_names f = [] \<longrightarrow> coil_blank_info_ranges g = R \<longrightarrow>
            map_of (coil_blank_info_ranges (snd (handle_h5_file_loading file_name f g))) c' = Some r"
    using handle_ranges[of file_name f g] load_preserves[OF assms] by simp
  have d: "coil_names f' \<noteq> [] \<longrightarrow>
            coil_blank_info_ranges (snd (handle_h5_file_loading file_name f' g))
              = calculate_coil_ranges f' (coil_names f') []"
    using handle_ranges_with_coils by blast
  show ?thesis using a b c d by blast
qed

text \<open>
  The range of coil50 survives the lazy allocation for coil51; after a load of the
  two-coil file the dictionary is the batch result for that file.
\<close>

theorem existing_ranges_kept_witness:
  "map_of [(''coil50'', \<lparr>start = 1, end_num = 12, count = 12\<rparr>)] ''coil50''
     = Some \<lparr>start = 1, end_num = 12, count = 12\<rparr>
   \<and> map_of (snd (generate_coil_blank_info ''coil51'' 8
                [(''coil50'', \<lparr>start = 1, end_num = 12, count = 12\<rparr>)])) ''coil50''
       = Some \<lparr>start = 1, end_num = 12, count = 12\<rparr>
   \<and> coil_blank_info_ranges (snd (handle_h5_file_loading ''a.h5'' file_two_coils initial_state))
       = calculate_coil_ranges file_two_coils [''coil50'', ''coil51''] []"
proof -
  have h: "map_of [(''coil50'', \<lparr>start = 1, end_num = 12, count = 12\<rparr>)] ''coil50''
     = Some \<lparr>start = 1, end_num = 12, count = 12\<rparr>" by simp
  from existing_ranges_kept[OF h, of "''coil51''" 8 file_two_coils initial_state "''a.h5''"
         file_two_coils]
  show ?thesis using h by (simp add: file_two_coils_def)
qed

text \<open>
  Claim C2 as stated fails across two file loads: coil 50 gets the range 1 to 2 from a
  file that holds it alone, and the range 2 to 3 after loading a file that also holds
  coil 49 with one row.  Blank info 1 was row 0 of coil 50 and is row 0 of coil 49 then.
\<close>

theorem existing_ranges_kept_counterexample:
  "map_of (coil_blank_info_ranges (snd (handle_h5_file_loading ''a.h5'' file_one_coil initial_state)))
      ''coil 50'' = Some \<lparr>start = 1, end_num = 2, count = 2\<rparr>
   \<and> map_of (coil_blank_info_ranges (snd (handle_h5_file_loading ''b.h5'' file_earlier_coil
        (snd (handle_h5_file_loading ''a.h5'' file_one_coil initial_state)))))
      ''coil 50'' = Some \<lparr>start = 2, end_num = 3, count = 2\<rparr>"
proof -
  have a: "coil_names file_one_coil \<noteq> []" by (simp add: file_one_coil_def)
  have b: "coil_names file_earlier_coil \<noteq> []" by (simp add: file_earlier_coil_def)
  show ?thesis
    by (simp only: handle_ranges_with_coils[OF a] handle_ranges_with_coils[OF b]
          one_coil_ranges earlier_coil_ranges) simp
qed

section \<open>The selected row after a coil switch or a file load\<close>





end
